theory Spec2Isabelle
  imports Main "HOL-Library.Sublist"
begin

section \<open>JavaScript values and promises\<close>

text \<open>
  The two wizard pages are TypeScript classes running on one event loop. The model keeps
  what the claims depend on: strings (as byte lists, non-ASCII characters in UTF-8),
  optional dictionary entries, thrown errors and the way a promise settles.
\<close>

text \<open>What a \<^verbatim>\<open>throw\<close> or a rejected promise carries: an Error object with its name and
  its message, a string, \<^verbatim>\<open>undefined\<close> or \<^verbatim>\<open>null\<close>.\<close>

datatype js_error = JsError string string | ThrownString string | ThrownUndefined | ThrownNull

text \<open>Reading a property of \<^verbatim>\<open>undefined\<close> throws a TypeError.\<close>

definition TypeError :: "string \<Rightarrow> js_error" where
  "TypeError p = JsError ''TypeError'' (''Cannot read property '' @ p @ '' of undefined'')"

text \<open>
  \<^verbatim>\<open>e.toString()\<close> on a caught value. \<^verbatim>\<open>Error.prototype.toString\<close> joins name and
  message by a colon and gives either alone when the other is empty; a string is its own
  text. \<^verbatim>\<open>undefined\<close> and \<^verbatim>\<open>null\<close> have no properties: the call itself throws a
  TypeError (\<open>Inl\<close>).
\<close>

fun toString :: "js_error \<Rightarrow> js_error + string" where
  "toString (JsError n m) = Inr (if n = [] then m else if m = [] then n else n @ '': '' @ m)"
| "toString (ThrownString t) = Inr t"
| "toString ThrownUndefined = Inl (TypeError ''toString'')"
| "toString ThrownNull = Inl (JsError ''TypeError'' ''Cannot read property toString of null'')"

datatype 'a settled = Fulfilled 'a | Rejected js_error

text \<open>An entry of the \<^verbatim>\<open>options\<close> dictionary of a connection (type \<^verbatim>\<open>any\<close>): absent,
  a string, or a non-negative whole number.\<close>

datatype js_value = Undefined | Str string | Num nat

definition truthy :: "js_value \<Rightarrow> bool" where
  "truthy v = (case v of Undefined \<Rightarrow> False | Str s \<Rightarrow> s \<noteq> [] | Num n \<Rightarrow> n \<noteq> 0)"

definition digit :: "nat \<Rightarrow> char" where
  "digit d = char_of (48 + d)"

fun dec :: "nat \<Rightarrow> string" where
  "dec n = (if n < 10 then [digit n] else dec (n div 10) @ [digit (n mod 10)])"

text \<open>What a template literal \<^verbatim>\<open>${v}\<close> substitutes.\<close>

definition to_string :: "js_value \<Rightarrow> string" where
  "to_string v = (case v of Undefined \<Rightarrow> ''undefined'' | Str s \<Rightarrow> s | Num n \<Rightarrow> dec n)"

text \<open>\<^verbatim>\<open>Array.prototype.indexOf\<close>: the first index holding the element, \<open>-1\<close> when there is none.\<close>

primrec indexFrom :: "'a \<Rightarrow> int \<Rightarrow> 'a list \<Rightarrow> int" where
  "indexFrom x i [] = -1"
| "indexFrom x i (y # ys) = (if y = x then i else indexFrom x (i + 1) ys)"

definition indexOf :: "'a list \<Rightarrow> 'a \<Rightarrow> int" where
  "indexOf xs x = indexFrom x 0 xs"

text \<open>\<^verbatim>\<open>String.prototype.lastIndexOf\<close> for a one-character search string: the last index
  holding the character, \<open>-1\<close> when there is none.\<close>

primrec lastIndexFrom :: "'a \<Rightarrow> int \<Rightarrow> int \<Rightarrow> 'a list \<Rightarrow> int" where
  "lastIndexFrom x i found [] = found"
| "lastIndexFrom x i found (y # ys) = lastIndexFrom x (i + 1) (if y = x then i else found) ys"

definition lastIndexOf :: "'a list \<Rightarrow> 'a \<Rightarrow> int" where
  "lastIndexOf xs x = lastIndexFrom x 0 (-1) xs"

text \<open>\<^verbatim>\<open>String.prototype.substring(start, end)\<close>: both arguments are clamped into
  \<open>0..length\<close>, and they are swapped when the first is the larger.\<close>

definition substring :: "'a list \<Rightarrow> int \<Rightarrow> int \<Rightarrow> 'a list" where
  "substring s start end =
     (let len = int (length s);
          finalStart = min (max start 0) len;
          finalEnd = min (max end 0) len;
          from = min finalStart finalEnd;
          to = max finalStart finalEnd
      in take (nat (to - from)) (drop (nat from) s))"

section \<open>The data model shared by the pages\<close>

record ConnectionOptions =
  server :: string
  port :: js_value
  authenticationType :: string
  user :: js_value
  databaseDisplayName :: js_value

record Connection =
  providerName :: string
  connectionId :: string
  options :: ConnectionOptions

record ColumnInfo =
  columnName :: string
  dataType :: string
  nullable :: bool
  primaryKey :: bool

text \<open>Modelled from the spec: \<^verbatim>\<open>ImportDataModel\<close> (the module \<^verbatim>\<open>./api/models\<close> is not
  among the sources). The fields are those of section 3 of the specification, at the types
  the two pages use them at; \<open>server\<close> is optional because it is unset until the
  configuration page has seen a connection.\<close>

record ImportDataModel =
  server :: "Connection option"
  database :: string
  schema :: string
  table :: string
  filePath :: string
  proseColumns :: "ColumnInfo list"

record Credentials =
  password :: string

record DbCellValue =
  displayValue :: string
  isNull :: bool

record SimpleExecuteResult =
  rows :: "DbCellValue list list"

record ColumnChangeParams =
  index :: nat
  newName :: string
  newDataType :: string
  newNullable :: bool
  newInPrimaryKey :: bool

record InsertDataParams =
  connectionString :: string
  batchSize :: nat

text \<open>Modelled from the spec: \<^verbatim>\<open>InsertDataResponse\<close> (the module \<^verbatim>\<open>../services/contracts\<close>
  is not among the sources): a result with a success flag and an error message.\<close>

record InsertResult =
  success :: bool
  errorMessage :: string

record InsertDataResponse =
  result :: InsertResult

record Uri =
  fsPath :: string
  path :: string

section \<open>The host\<close>

text \<open>
  Everything the pages ask of their collaborators, in the order they ask it. A call whose
  promise the code awaits is answered by the \<open>host\<close> record below; a call whose
  promise the code drops is only recorded.
\<close>

datatype widget = ServerDropdown | DatabaseDropdown | SchemaDropdown | TableNameTextBox | StatusText

datatype call =
    GetActiveConnections
  | ListDatabases string
  | GetUriForConnection string
  | GetCredentials string
  | RunQueryAndReturn string string string
  | SendChangeColumnSettingsRequest ColumnChangeParams
  | SendInsertDataRequest InsertDataParams
  | ShowOpenDialog
  | UpdateProperties widget
  | Validate widget
  | ConsoleLog

text \<open>
  How the host answers: \<open>getProvider\<close> is \<^verbatim>\<open>sqlops.dataprotocol.getProvider\<close>, which
  gives no provider for an unknown name; a provider's \<^verbatim>\<open>runQueryAndReturn\<close> takes the
  connection and the query.
\<close>

record host =
  getActiveConnections :: "Connection list option settled"
  listDatabases :: "string \<Rightarrow> string list settled"
  getUriForConnection :: "string \<Rightarrow> string settled"
  getCredentials :: "string \<Rightarrow> Credentials settled"
  getProvider :: "string \<Rightarrow> (string \<Rightarrow> string \<Rightarrow> SimpleExecuteResult settled) option"
  sendInsertDataRequest :: "InsertDataParams \<Rightarrow> InsertDataResponse settled"
  showOpenDialog :: "Uri list option settled"

section \<open>The summary page\<close>

subsection \<open>getConnectionString\<close>

definition portSegment :: "js_value \<Rightarrow> string" where
  "portSegment p = (if truthy p then '','' @ to_string p else [])"

definition getConnectionString :: "host \<Rightarrow> ImportDataModel \<Rightarrow> string settled \<times> call list" where
  "getConnectionString h m =
     (case ImportDataModel.server m of
        None \<Rightarrow> (Rejected (TypeError ''options''), [])
      | Some srv \<Rightarrow>
          (let opts = options srv in
           if authenticationType opts = ''Integrated'' then
             (Fulfilled (''Data Source='' @ (ConnectionOptions.server opts @ portSegment (port opts))
                @ '';Initial Catalog='' @ database m @ '';Integrated Security=True''), [])
           else
             (case getCredentials h (connectionId srv) of
                Rejected e \<Rightarrow> (Rejected e, [GetCredentials (connectionId srv)])
              | Fulfilled credentials \<Rightarrow>
                  (Fulfilled (''Data Source='' @ (ConnectionOptions.server opts @ portSegment (port opts))
                     @ '';Initial Catalog='' @ database m @ '';Integrated Security=False;User Id=''
                     @ to_string (user opts) @ '';Password='' @ password credentials),
                   [GetCredentials (connectionId srv)]))))"

subsection \<open>getCountRowsInserted\<close>

text \<open>
  \<^verbatim>\<open>Number(s)\<close> on the display value of a \<^verbatim>\<open>COUNT(*)\<close> cell: the empty string is 0, a
  string of decimal digits is the number it spells, and \<open>None\<close> stands for NaN. Other
  spellings that JavaScript accepts (a sign, a fraction, an exponent, white space around
  the digits) are outside this model and count as NaN in it.
\<close>

definition isDigit :: "char \<Rightarrow> bool" where
  "isDigit c = (48 \<le> (of_char c :: nat) \<and> (of_char c :: nat) \<le> 57)"

primrec digitsValue :: "int \<Rightarrow> string \<Rightarrow> int" where
  "digitsValue acc [] = acc"
| "digitsValue acc (c # cs) = digitsValue (10 * acc + (int (of_char c) - 48)) cs"

definition Number :: "string \<Rightarrow> int option" where
  "Number s = (if list_all isDigit s then Some (digitsValue 0 s) else None)"

text \<open>
  Lines 151 to 162, the part of the \<^verbatim>\<open>try\<close> block that reads the count out of the
  variable \<^verbatim>\<open>results\<close>. Every failing read throws a TypeError that the \<^verbatim>\<open>catch\<close>
  turns into \<open>-1\<close>: \<^verbatim>\<open>results\<close> undefined, no first row. A first row without a cell, a
  null cell and a NaN give \<open>-1\<close> by the two tests.
\<close>

definition countFromResults :: "SimpleExecuteResult option \<Rightarrow> int" where
  "countFromResults results =
     (case results of
        None \<Rightarrow> -1
      | Some r \<Rightarrow>
          (case rows r of
             [] \<Rightarrow> -1
           | row # _ \<Rightarrow>
               (case row of
                  [] \<Rightarrow> -1
                | cell # _ \<Rightarrow>
                    if isNull cell then -1
                    else (case Number (displayValue cell) of
                            None \<Rightarrow> -1
                          | Some numericCell \<Rightarrow> numericCell))))"

text \<open>
  The query's promise is not awaited: \<^verbatim>\<open>.then((r) => { results = r; })\<close> only registers
  the assignment, and a promise reaction never runs before the synchronous code that
  registered it has finished. So the next line reads \<^verbatim>\<open>results\<close> as it was declared,
  undefined, whatever the query answers later. A missing provider makes the call itself
  throw inside the \<^verbatim>\<open>try\<close>.
\<close>

definition getCountRowsInserted :: "host \<Rightarrow> ImportDataModel \<Rightarrow> int settled \<times> call list" where
  "getCountRowsInserted h m =
     (case ImportDataModel.server m of
        None \<Rightarrow> (Rejected (TypeError ''providerName''), [])
      | Some srv \<Rightarrow>
          (let queryProvider = getProvider h (providerName srv);
               results = None;
               query = ''USE '' @ database m @ ''; SELECT COUNT(*) FROM '' @ ImportDataModel.table m
           in case queryProvider of
                None \<Rightarrow> (Fulfilled (-1), [])
              | Some runQueryAndReturn \<Rightarrow>
                  (let pending = runQueryAndReturn (connectionId srv) query
                   in (Fulfilled (countFromResults results),
                       [RunQueryAndReturn (providerName srv) (connectionId srv) query]))))"

text \<open>
  For comparison only, the sequential contract that section 9 of the specification
  describes in place of the code: the query is awaited and the count is read from its
  answer. No function of the pages is defined through it.
\<close>

definition getCountRowsInserted_awaited :: "host \<Rightarrow> ImportDataModel \<Rightarrow> int settled \<times> call list" where
  "getCountRowsInserted_awaited h m =
     (case ImportDataModel.server m of
        None \<Rightarrow> (Rejected (TypeError ''providerName''), [])
      | Some srv \<Rightarrow>
          (let query = ''USE '' @ database m @ ''; SELECT COUNT(*) FROM '' @ ImportDataModel.table m
           in case getProvider h (providerName srv) of
                None \<Rightarrow> (Fulfilled (-1), [])
              | Some runQueryAndReturn \<Rightarrow>
                  (case runQueryAndReturn (connectionId srv) query of
                     Rejected e \<Rightarrow>
                       (Fulfilled (-1), [RunQueryAndReturn (providerName srv) (connectionId srv) query])
                   | Fulfilled r \<Rightarrow>
                       (Fulfilled (countFromResults (Some r)),
                        [RunQueryAndReturn (providerName srv) (connectionId srv) query]))))"

subsection \<open>handleImport\<close>

record SummaryPage =
  model :: ImportDataModel
  table :: "string list list"
  statusText :: string
  loading :: bool
  importAnotherFileVisibility :: bool

text \<open>The two marks are U+2717 and U+2714, in UTF-8.\<close>

definition crossMark :: string where
  "crossMark = [CHR 0xE2, CHR 0x9C, CHR 0x97]"

definition checkMark :: string where
  "checkMark = [CHR 0xE2, CHR 0x9C, CHR 0x94]"

definition columnChangeParams :: "nat \<Rightarrow> ColumnInfo \<Rightarrow> ColumnChangeParams" where
  "columnChangeParams i val =
     \<lparr>index = i, newName = columnName val, newDataType = dataType val,
      newNullable = nullable val, newInPrimaryKey = primaryKey val\<rparr>"

text \<open>The \<^verbatim>\<open>forEach\<close> loop: one request per column, sent at once and in order; the
  promises are collected and never looked at again.\<close>

definition changeColumnRequests :: "ColumnInfo list \<Rightarrow> call list" where
  "changeColumnRequests cols =
     map (\<lambda>(i, val). SendChangeColumnSettingsRequest (columnChangeParams i val)) (enumerate 0 cols)"

text \<open>The \<^verbatim>\<open>try\<close> block: the connection string is awaited first, then the insert request
  is sent and awaited. The result is the response assigned to \<^verbatim>\<open>result\<close>, or what
  either await threw and the \<^verbatim>\<open>catch\<close> clause received, with the calls made.\<close>

definition sendInsert ::
  "host \<Rightarrow> ImportDataModel \<Rightarrow> InsertDataResponse option \<times> js_error option \<times> call list" where
  "sendInsert h m =
     (case getConnectionString h m of
        (Rejected e, calls) \<Rightarrow> (None, Some e, calls)
      | (Fulfilled cs, calls) \<Rightarrow>
          (let params = \<lparr>connectionString = cs, batchSize = 500\<rparr>
           in case sendInsertDataRequest h params of
                Rejected e \<Rightarrow> (None, Some e, calls @ [SendInsertDataRequest params])
              | Fulfilled r \<Rightarrow> (Some r, None, calls @ [SendInsertDataRequest params])))"

text \<open>The body of the \<^verbatim>\<open>catch\<close> clause, \<^verbatim>\<open>err = e.toString()\<close>: the value of
  \<^verbatim>\<open>err\<close> afterwards (unset when nothing was caught), or the TypeError that the
  call throws out of the clause.\<close>

definition caughtText :: "js_error option \<Rightarrow> js_error + string option" where
  "caughtText caught =
     (case caught of
        None \<Rightarrow> Inr None
      | Some e \<Rightarrow> (case toString e of Inl thrown \<Rightarrow> Inl thrown | Inr t \<Rightarrow> Inr (Some t)))"

definition updateStatus :: "SummaryPage \<Rightarrow> string \<Rightarrow> call list \<Rightarrow> bool settled \<times> SummaryPage \<times> call list" where
  "updateStatus s updateText calls =
     (Fulfilled True, s\<lparr>statusText := updateText\<rparr>, calls @ [UpdateProperties StatusText])"

definition handleImport :: "host \<Rightarrow> SummaryPage \<Rightarrow> bool settled \<times> SummaryPage \<times> call list" where
  "handleImport h s =
     (let changeColumnResults = changeColumnRequests (proseColumns (model s))
      in case sendInsert h (model s) of
           (response, caught, calls) \<Rightarrow>
             (case caughtText caught of
                Inl thrown \<Rightarrow> (Rejected thrown, s, changeColumnResults @ calls)
              | Inr err \<Rightarrow>
                  (case response of
                     None \<Rightarrow>
                       updateStatus s
                         ((crossMark @ '' '') @ (case err of None \<Rightarrow> ''undefined'' | Some t \<Rightarrow> t))
                         (changeColumnResults @ calls)
                   | Some r \<Rightarrow>
                       if \<not> success (result r) then
                         updateStatus s ((crossMark @ '' '') @ errorMessage (result r))
                           (changeColumnResults @ calls)
                       else
                         (case getCountRowsInserted h (model s) of
                            (Rejected e, calls') \<Rightarrow> (Rejected e, s, changeColumnResults @ calls @ calls')
                          | (Fulfilled rows', calls') \<Rightarrow>
                              if rows' < 0 then
                                updateStatus s
                                  (checkMark @ '' Awesome! You have successfully inserted the data into a table.'')
                                  (changeColumnResults @ calls @ calls')
                              else
                                updateStatus s
                                  (checkMark @ '' Awesome! You have successfully inserted ''
                                     @ dec (nat rows') @ '' rows.'')
                                  (changeColumnResults @ calls @ calls')))))"

subsection \<open>Entering and leaving the summary page\<close>

definition populateTable :: "SummaryPage \<Rightarrow> js_error + SummaryPage" where
  "populateTable s =
     (case ImportDataModel.server (model s) of
        None \<Rightarrow> Inl (TypeError ''providerName'')
      | Some srv \<Rightarrow>
          Inr (s\<lparr>table :=
            [[''Server name'', providerName srv],
             [''Database name'', database (model s)],
             [''Table name'', ImportDataModel.table (model s)],
             [''Table schema'', schema (model s)],
             [''File to be imported'', filePath (model s)]]\<rparr>))"

definition onPageEnter_summary :: "host \<Rightarrow> SummaryPage \<Rightarrow> bool settled \<times> SummaryPage \<times> call list" where
  "onPageEnter_summary h s =
     (case populateTable (s\<lparr>loading := True\<rparr>) of
        Inl e \<Rightarrow> (Rejected e, s\<lparr>loading := True\<rparr>, [])
      | Inr s1 \<Rightarrow>
          (case handleImport h s1 of
             (Rejected e, s2, calls) \<Rightarrow> (Rejected e, s2, calls)
           | (Fulfilled b, s2, calls) \<Rightarrow>
               (Fulfilled True, s2\<lparr>loading := False, importAnotherFileVisibility := True\<rparr>, calls)))"

definition onPageLeave_summary :: "SummaryPage \<Rightarrow> bool settled \<times> SummaryPage" where
  "onPageLeave_summary s = (Fulfilled True, s\<lparr>importAnotherFileVisibility := False\<rparr>)"

section \<open>The configuration page\<close>

record CategoryValue =
  displayName :: string
  name :: string

record ConnectionDropdownValue = CategoryValue +
  connection :: Connection

record 'v DropDownComponent =
  values' :: "'v list"
  value' :: "'v option"

record InputBoxComponent =
  text' :: string

text \<open>The fields of a started page: \<open>values'\<close> and \<open>value'\<close> are the \<^verbatim>\<open>values\<close> and
  \<^verbatim>\<open>value\<close> properties of a dropdown, \<open>text'\<close> the \<^verbatim>\<open>value\<close> property of an input box.\<close>

record FileConfigPage =
  model :: ImportDataModel
  server :: "Connection option"
  serverDropdown :: "ConnectionDropdownValue DropDownComponent"
  databaseDropdown :: "CategoryValue DropDownComponent"
  fileTextBox :: InputBoxComponent
  tableNameTextBox :: InputBoxComponent
  schemaDropdown :: "CategoryValue DropDownComponent"
  tableNames :: "string list"

text \<open>
  An asynchronous method of the page, run until its promise settles: the way it settles,
  the page it leaves and the calls it made, in order.
\<close>

type_synonym 'a task = "host \<Rightarrow> FileConfigPage \<Rightarrow> 'a settled \<times> FileConfigPage \<times> call list"

text \<open>
  \<^verbatim>\<open>p.then(f)\<close>: \<open>f\<close> is called with the value \<open>p\<close> is fulfilled with, on the page as
  \<open>p\<close> left it; when \<open>p\<close> is rejected \<open>f\<close> is not called and the rejection is passed on.
\<close>

definition then_task :: "'a task \<Rightarrow> ('a \<Rightarrow> 'b task) \<Rightarrow> 'b task" where
  "then_task p f h s =
     (case p h s of
        (Rejected e, s1, calls1) \<Rightarrow> (Rejected e, s1, calls1)
      | (Fulfilled v, s1, calls1) \<Rightarrow>
          (case f v h s1 of (r, s2, calls2) \<Rightarrow> (r, s2, calls1 @ calls2)))"

text \<open>
  The value of \<^verbatim>\<open>this\<close> inside a method: the page when the method is called on the page
  (\<^verbatim>\<open>this.f()\<close>), undefined when the bare function \<^verbatim>\<open>this.f\<close> is handed to \<^verbatim>\<open>then\<close>
  and the promise calls it. Class bodies are strict code, so nothing stands in for a
  missing receiver, and the first read of a field of \<^verbatim>\<open>this\<close> throws.
\<close>

datatype this_value = ThisPage | ThisUndefined

subsection \<open>The table name box\<close>

definition tableNameValidation :: "FileConfigPage \<Rightarrow> InputBoxComponent \<Rightarrow> bool" where
  "tableNameValidation s name' =
     (let tableName = text' name'
      in if tableName = [] \<or> length tableName = 0 then False
         else if indexOf (tableNames s) tableName \<noteq> -1 then False
         else True)"

definition tableNameTextBox_onTextChanged :: "string \<Rightarrow> FileConfigPage \<Rightarrow> FileConfigPage" where
  "tableNameTextBox_onTextChanged tableName s =
     s\<lparr>model := (model s)\<lparr>ImportDataModel.table := tableName\<rparr>\<rparr>"

subsection \<open>The file browser\<close>

definition fileButton_onDidClick :: "unit task" where
  "fileButton_onDidClick h s =
     (case showOpenDialog h of
        Rejected e \<Rightarrow> (Rejected e, s, [ShowOpenDialog])
      | Fulfilled fileUris \<Rightarrow>
          (case fileUris of
             None \<Rightarrow> (Fulfilled (), s, [ShowOpenDialog])
           | Some [] \<Rightarrow> (Fulfilled (), s, [ShowOpenDialog])
           | Some (fileUri # _) \<Rightarrow>
               (let nameStart = lastIndexOf (path fileUri) (CHR ''/'');
                    nameEnd = lastIndexOf (path fileUri) (CHR ''.'');
                    nameEnd = (if nameEnd = 0 then int (length (path fileUri)) else nameEnd);
                    tableName = substring (path fileUri) (nameStart + 1) nameEnd
                in (Fulfilled (),
                    s\<lparr>fileTextBox := \<lparr>text' = fsPath fileUri\<rparr>,
                      tableNameTextBox := \<lparr>text' = tableName\<rparr>,
                      model := (model s)\<lparr>ImportDataModel.table := tableName, filePath := fsPath fileUri\<rparr>\<rparr>,
                    [ShowOpenDialog, Validate TableNameTextBox]))))"

subsection \<open>Populating the dropdowns\<close>

definition connectionDisplayName :: "Connection \<Rightarrow> string" where
  "connectionDisplayName c =
     (let db = databaseDisplayName (options c);
          usr = user (options c);
          srv = ConnectionOptions.server (options c);
          db = (if \<not> truthy db then Str ''<default>'' else db);
          usr = (if \<not> truthy usr then Str ''default'' else usr)
      in srv @ '', '' @ to_string db @ '' ('' @ to_string usr @ '')'')"

text \<open>What \<^verbatim>\<open>populateServerDropdown\<close> does once the list of connections has arrived.\<close>

definition populateServerDropdown_resume ::
  "Connection list option settled \<Rightarrow> FileConfigPage \<Rightarrow> unit settled \<times> FileConfigPage \<times> call list" where
  "populateServerDropdown_resume answer s =
     (case answer of
        Rejected e \<Rightarrow> (Rejected e, s, [])
      | Fulfilled None \<Rightarrow> (Fulfilled (), s, [])
      | Fulfilled (Some []) \<Rightarrow> (Fulfilled (), s, [])
      | Fulfilled (Some (c0 # cs)) \<Rightarrow>
          (Fulfilled (),
           s\<lparr>server := Some c0,
             model := (model s)\<lparr>ImportDataModel.server := Some c0\<rparr>,
             serverDropdown := (serverDropdown s)
               \<lparr>values' := map (\<lambda>c. \<lparr>displayName = connectionDisplayName c, name = connectionId c,
                                      connection = c\<rparr>) (c0 # cs)\<rparr>\<rparr>,
           [UpdateProperties ServerDropdown]))"

definition populateServerDropdown :: "unit task" where
  "populateServerDropdown h s =
     (case populateServerDropdown_resume (getActiveConnections h) s of
        (r, s1, calls) \<Rightarrow> (r, s1, GetActiveConnections # calls))"

definition populateDatabaseDropdown :: "this_value \<Rightarrow> bool task" where
  "populateDatabaseDropdown this h s =
     (case this of
        ThisUndefined \<Rightarrow> (Rejected (TypeError ''databaseDropdown''), s, [])
      | ThisPage \<Rightarrow>
          (let s1 = s\<lparr>databaseDropdown := (databaseDropdown s)\<lparr>values' := []\<rparr>,
                      schemaDropdown := (schemaDropdown s)\<lparr>values' := []\<rparr>\<rparr>;
               calls = [UpdateProperties DatabaseDropdown, UpdateProperties SchemaDropdown]
           in case server s1 of
                None \<Rightarrow> (Fulfilled False, s1, calls)
              | Some srv \<Rightarrow>
                  (case listDatabases h (connectionId srv) of
                     Rejected e \<Rightarrow> (Rejected e, s1, calls @ [ListDatabases (connectionId srv)])
                   | Fulfilled dbs \<Rightarrow>
                       (let s2 = (case dbs of
                                    [] \<Rightarrow> s1
                                  | db # _ \<Rightarrow> s1\<lparr>model := (model s1)\<lparr>database := db\<rparr>\<rparr>);
                            val = map (\<lambda>db. \<lparr>displayName = db, name = db\<rparr>) dbs
                        in (Fulfilled True,
                            s2\<lparr>databaseDropdown := (databaseDropdown s2)\<lparr>values' := val\<rparr>\<rparr>,
                            calls @ [ListDatabases (connectionId srv), UpdateProperties DatabaseDropdown])))))"

text \<open>\<^verbatim>\<open>row[0].displayValue\<close> for every row; a row without a cell makes the read throw.\<close>

definition firstCells :: "DbCellValue list list \<Rightarrow> string list option" where
  "firstCells rs = those (map (\<lambda>row. case row of [] \<Rightarrow> None | cell # _ \<Rightarrow> Some (displayValue cell)) rs)"

definition populateSchemaDropdown :: "this_value \<Rightarrow> bool task" where
  "populateSchemaDropdown this h s =
     (case this of
        ThisUndefined \<Rightarrow> (Rejected (TypeError ''server''), s, [])
      | ThisPage \<Rightarrow>
          (case server s of
             None \<Rightarrow> (Rejected (TypeError ''connectionId''), s, [])
           | Some srv \<Rightarrow>
               (case getUriForConnection h (connectionId srv) of
                  Rejected e \<Rightarrow> (Rejected e, s, [GetUriForConnection (connectionId srv)])
                | Fulfilled connectionUri \<Rightarrow>
                    (let query = ''SELECT name FROM sys.schemas'';
                         calls = [GetUriForConnection (connectionId srv),
                                  RunQueryAndReturn (providerName srv) connectionUri query]
                     in case getProvider h (providerName srv) of
                          None \<Rightarrow>
                            (Rejected (TypeError ''runQueryAndReturn''), s,
                             [GetUriForConnection (connectionId srv)])
                        | Some runQueryAndReturn \<Rightarrow>
                            (case runQueryAndReturn connectionUri query of
                               Rejected e \<Rightarrow> (Rejected e, s, calls)
                             | Fulfilled results \<Rightarrow>
                                 (let s1 = (case rows results of
                                              (cell # _) # _ \<Rightarrow>
                                                s\<lparr>model := (model s)\<lparr>schema := displayValue cell\<rparr>\<rparr>
                                            | _ \<Rightarrow> s)
                                  in case firstCells (rows results) of
                                       None \<Rightarrow> (Rejected (TypeError ''displayValue''), s1, calls)
                                     | Some schemas \<Rightarrow>
                                         (Fulfilled True,
                                          s1\<lparr>schemaDropdown := (schemaDropdown s1)
                                               \<lparr>values' := map (\<lambda>val. \<lparr>displayName = val, name = val\<rparr>) schemas\<rparr>\<rparr>,
                                          calls @ [UpdateProperties SchemaDropdown])))))))"


subsection \<open>The change handlers\<close>

definition serverDropdown_onValueChanged :: "bool task" where
  "serverDropdown_onValueChanged h s =
     (case value' (serverDropdown s) of
        None \<Rightarrow> (Rejected (TypeError ''connection''), s, [])
      | Some selected \<Rightarrow>
          then_task (populateDatabaseDropdown ThisPage) (\<lambda>_. populateSchemaDropdown ThisPage) h
            (s\<lparr>server := Some (connection selected),
               model := (model s)\<lparr>ImportDataModel.server := Some (connection selected)\<rparr>\<rparr>))"


definition schemaDropdown_onValueChanged :: "FileConfigPage \<Rightarrow> js_error + FileConfigPage" where
  "schemaDropdown_onValueChanged s =
     (case value' (schemaDropdown s) of
        None \<Rightarrow> Inl (TypeError ''name'')
      | Some selected \<Rightarrow> Inr (s\<lparr>model := (model s)\<lparr>schema := name selected\<rparr>\<rparr>))"

subsection \<open>Entering and leaving the configuration page\<close>

text \<open>
  \<^verbatim>\<open>onPageEnter\<close> calls \<^verbatim>\<open>populateServerDropdown\<close>, which asks for the connections and
  stops at its \<^verbatim>\<open>await\<close>; the two \<^verbatim>\<open>then\<close> calls chain the other population steps
  behind it, each handed over as a bare function; and \<^verbatim>\<open>return true\<close> follows at once.
  The result is what the caller sees when the promise of \<^verbatim>\<open>onPageEnter\<close> resolves: the
  value, the page, the calls made so far, and the chain that is still pending.
\<close>

definition populationChain :: "bool task" where
  "populationChain =
     then_task
       (then_task (\<lambda>h. populateServerDropdown_resume (getActiveConnections h))
                  (\<lambda>_. populateDatabaseDropdown ThisUndefined))
       (\<lambda>_. populateSchemaDropdown ThisUndefined)"

definition onPageEnter :: "FileConfigPage \<Rightarrow> bool settled \<times> FileConfigPage \<times> call list \<times> bool task" where
  "onPageEnter s = (Fulfilled True, s, [GetActiveConnections], populationChain)"

text \<open>The page and the calls once the pending chain has settled as well.\<close>

definition onPageEnter_settled :: "bool task" where
  "onPageEnter_settled h s =
     (case onPageEnter s of
        (r, s0, calls0, pending) \<Rightarrow>
          (case pending h s0 of (r1, s1, calls1) \<Rightarrow> (r1, s1, calls0 @ calls1)))"

definition onPageLeave :: "FileConfigPage \<Rightarrow> bool settled \<times> FileConfigPage \<times> call list" where
  "onPageLeave s = (Fulfilled True, s, [ConsoleLog])"

section \<open>The scenarios of the specification\<close>

text \<open>
  Concrete inputs for the scenarios of section 8 of the specification: one connection
  \<open>c1\<close> with integrated authentication on database \<open>db1\<close>, whose only table is
  \<open>orders\<close> and whose only schema is \<open>dbo\<close> (every other database holds the one
  table \<open>customers\<close>); an import of one column into \<open>orders2\<close> that succeeds and
  counts 42 rows.
\<close>

definition exampleConnection :: Connection where
  "exampleConnection =
     \<lparr>providerName = ''MSSQL'', connectionId = ''c1'',
      options = \<lparr>ConnectionOptions.server = ''localhost'', port = Undefined,
                 authenticationType = ''Integrated'', user = Undefined,
                 databaseDisplayName = Str ''db1''\<rparr>\<rparr>"

definition sqlLoginConnection :: Connection where
  "sqlLoginConnection =
     \<lparr>providerName = ''MSSQL'', connectionId = ''c2'',
      options = \<lparr>ConnectionOptions.server = ''localhost'', port = Num 1433,
                 authenticationType = ''SqlLogin'', user = Str ''sa'',
                 databaseDisplayName = Str ''db1''\<rparr>\<rparr>"

definition exampleModel :: ImportDataModel where
  "exampleModel =
     \<lparr>ImportDataModel.server = Some exampleConnection, database = ''db1'', schema = ''dbo'',
      ImportDataModel.table = ''orders2'', filePath = ''/tmp/orders2.csv'',
      proseColumns = [\<lparr>columnName = ''a'', dataType = ''int'', nullable = False, primaryKey = False\<rparr>]\<rparr>"

definition singleCell :: "string \<Rightarrow> SimpleExecuteResult" where
  "singleCell v = \<lparr>rows = [[\<lparr>displayValue = v, isNull = False\<rparr>]]\<rparr>"

definition exampleHost :: host where
  "exampleHost =
     \<lparr>getActiveConnections = Fulfilled (Some [exampleConnection]),
      listDatabases = (\<lambda>c. Fulfilled [''db1'']),
      getUriForConnection = (\<lambda>c. Fulfilled (''connection://'' @ c)),
      getCredentials = (\<lambda>c. Fulfilled \<lparr>password = ''pw''\<rparr>),
      getProvider = (\<lambda>p. Some (\<lambda>c q.
        if q = ''SELECT name FROM sys.schemas'' then Fulfilled (singleCell ''dbo'')
        else if q = ''USE db1; SELECT COUNT(*) FROM orders2'' then Fulfilled (singleCell ''42'')
        else if q = ''USE db1; SELECT TABLE_NAME FROM INFORMATION_SCHEMA.TABLES WHERE TABLE_TYPE = ''
                      @ [CHR 0x27] @ ''BASE TABLE'' @ [CHR 0x27]
          then Fulfilled (singleCell ''orders'')
        else Fulfilled (singleCell ''customers''))),
      sendInsertDataRequest = (\<lambda>p. Fulfilled \<lparr>result = \<lparr>success = True, errorMessage = []\<rparr>\<rparr>),
      showOpenDialog = Fulfilled (Some [\<lparr>fsPath = ''/home/user/orders.csv'', path = ''/home/user/orders.csv''\<rparr>])\<rparr>"




definition brokenQueryHost :: host where
  "brokenQueryHost = exampleHost
     \<lparr>getProvider := (\<lambda>p. Some (\<lambda>c q. Rejected (JsError ''Error'' ''connection lost'')))\<rparr>"

definition noConnectionHost :: host where
  "noConnectionHost = exampleHost\<lparr>getActiveConnections := Fulfilled (Some [])\<rparr>"

definition noExtensionHost :: host where
  "noExtensionHost = exampleHost
     \<lparr>showOpenDialog := Fulfilled (Some [\<lparr>fsPath = ''/home/user/data'', path = ''/home/user/data''\<rparr>])\<rparr>"

definition exampleSummaryPage :: SummaryPage where
  "exampleSummaryPage =
     \<lparr>SummaryPage.model = exampleModel, SummaryPage.table = [], statusText = [], loading = False,
      importAnotherFileVisibility = False\<rparr>"

text \<open>A started configuration page that has not been entered yet, and the same page
  later on: connection \<open>c1\<close> chosen, the tables of \<open>db1\<close> cached, and the
  user just having picked \<open>db2\<close> in the database dropdown.\<close>

definition freshPage :: FileConfigPage where
  "freshPage =
     \<lparr>model = \<lparr>ImportDataModel.server = None, database = [], schema = [], ImportDataModel.table = [],
               filePath = [], proseColumns = []\<rparr>,
      server = None,
      serverDropdown = \<lparr>values' = [], value' = None\<rparr>,
      databaseDropdown = \<lparr>values' = [], value' = None\<rparr>,
      fileTextBox = \<lparr>text' = []\<rparr>,
      tableNameTextBox = \<lparr>text' = []\<rparr>,
      schemaDropdown = \<lparr>values' = [], value' = None\<rparr>,
      tableNames = []\<rparr>"

definition db2Page :: FileConfigPage where
  "db2Page = freshPage
     \<lparr>model := exampleModel,
      server := Some exampleConnection,
      databaseDropdown :=
        \<lparr>values' = [\<lparr>displayName = ''db1'', name = ''db1''\<rparr>, \<lparr>displayName = ''db2'', name = ''db2''\<rparr>],
         value' = Some \<lparr>displayName = ''db2'', name = ''db2''\<rparr>\<rparr>,
      schemaDropdown := \<lparr>values' = [\<lparr>displayName = ''dbo'', name = ''dbo''\<rparr>], value' = None\<rparr>,
      tableNames := [''orders'']\<rparr>"

section \<open>Facts about the JavaScript helpers\<close>

lemma indexFrom_none: "0 \<le> i \<Longrightarrow> (indexFrom x i ys = -1) = (x \<notin> set ys)"
  by (induction ys arbitrary: i) auto

lemma indexOf_none: "(indexOf xs x = -1) = (x \<notin> set xs)"
  by (simp add: indexOf_def indexFrom_none)

text \<open>A text without the character \<open>c\<close> occurs in \<open>xs @ c # ys\<close> only inside
  \<open>xs\<close> or inside \<open>ys\<close>.\<close>

lemma sublist_separator:
  assumes "c \<notin> set u"
  shows "sublist u (xs @ c # ys) \<longleftrightarrow> sublist u xs \<or> sublist u ys"
proof
  assume "sublist u (xs @ c # ys)"
  then consider "sublist u xs" | "sublist u (c # ys)"
    | u1 u2 where "u = u1 @ u2" "suffix u1 xs" "prefix u2 (c # ys)"
    by (auto simp: sublist_append)
  then show "sublist u xs \<or> sublist u ys"
  proof cases
    case 1
    then show ?thesis by simp
  next
    case 2
    then show ?thesis using assms
      by (cases u) (auto simp: sublist_Cons_right)
  next
    case 3
    show ?thesis
    proof (cases u2)
      case Nil
      with 3 show ?thesis by auto
    next
      case (Cons a as)
      with 3 assms show ?thesis by auto
    qed
  qed
next
  assume "sublist u xs \<or> sublist u ys"
  then show "sublist u (xs @ c # ys)"
    by (auto simp: sublist_append sublist_Cons_right)
qed

lemma last_in_butlast: "u1 \<noteq> [] \<Longrightarrow> u2 \<noteq> [] \<Longrightarrow> last u1 \<in> set (butlast (u1 @ u2))"
  by (simp add: butlast_append)

text \<open>The text \<open>User Id=\<close> has its only \<open>=\<close> at the end, so it cannot begin inside
  a field name that ends with \<open>=\<close> and run on into what follows.\<close>

lemma userid_not_across:
  assumes "\<not> sublist ''User Id='' p" and "p \<noteq> []" and "last p = CHR ''=''"
    and "\<not> suffix ''User Id='' p"
  shows "sublist ''User Id='' (p @ xs) \<longleftrightarrow> sublist ''User Id='' xs"
proof
  assume "sublist ''User Id='' (p @ xs)"
  then consider "sublist ''User Id='' p" | "sublist ''User Id='' xs"
    | u1 u2 where "''User Id='' = u1 @ u2" "suffix u1 p" "prefix u2 xs"
    by (auto simp: sublist_append)
  then show "sublist ''User Id='' xs"
  proof cases
    case 1
    with assms show ?thesis by simp
  next
    case 2
    then show ?thesis .
  next
    case 3
    show ?thesis
    proof (cases "u1 = []")
      case True
      with 3 show ?thesis by auto
    next
      case False
      with 3(2) assms(2) have "last u1 = last p"
        by (auto simp: suffix_def)
      with assms(3) have l: "last u1 = CHR ''=''" by simp
      have "u2 = []"
      proof (rule ccontr)
        assume "u2 \<noteq> []"
        with False have "last u1 \<in> set (butlast (u1 @ u2))"
          by (rule last_in_butlast)
        with 3(1) l have "CHR ''='' \<in> set (butlast ''User Id='')" by simp
        then show False by simp
      qed
      with 3 assms(4) show ?thesis by simp
    qed
  qed
next
  assume "sublist ''User Id='' xs"
  then show "sublist ''User Id='' (p @ xs)"
    by (simp add: sublist_append)
qed

lemma userid_after_data_source:
  "sublist ''User Id='' (''Data Source='' @ xs) \<longleftrightarrow> sublist ''User Id='' xs"
  by (rule userid_not_across) (simp_all add: sublist_code suffix_to_prefix)

lemma userid_after_initial_catalog:
  "sublist ''User Id='' (''Initial Catalog='' @ xs) \<longleftrightarrow> sublist ''User Id='' xs"
  by (rule userid_not_across) (simp_all add: sublist_code suffix_to_prefix)

text \<open>The decimal digits are computed on request only.\<close>

declare dec.simps [simp del]

lemma dec_1433: "dec 1433 = ''1433''"
  by code_simp

section \<open>The table name box accepts exactly the new, non-empty names\<close>

text \<open>
  Claim C3. Whatever table names the page has cached and whatever name stands in the box,
  the validation of the table name box accepts the name if and only if it is not empty
  and is not one of the cached names.
\<close>

theorem tableNameValidation_iff:
  "tableNameValidation s \<lparr>text' = n\<rparr> \<longleftrightarrow> n \<noteq> [] \<and> n \<notin> set (tableNames s)"
  by (simp add: tableNameValidation_def indexOf_none)

text \<open>The scenario of the specification: with \<open>orders\<close> cached, \<open>orders2\<close> is accepted
  and \<open>orders\<close> is rejected.\<close>

theorem tableNameValidation_iff_witness:
  "tableNameValidation db2Page \<lparr>text' = ''orders2''\<rparr>
   \<and> \<not> tableNameValidation db2Page \<lparr>text' = ''orders''\<rparr>"
  using tableNameValidation_iff [of db2Page "''orders2''"]
    tableNameValidation_iff [of db2Page "''orders''"]
  by (simp add: db2Page_def)

section \<open>The two shapes of the connection string\<close>

text \<open>
  Claim C1, as amended. For a model whose server carries authentication type
  \<open>Integrated\<close>, \<open>getConnectionString\<close> asks the host nothing and returns exactly
  \<open>Data Source=<host>[,<port>];Initial Catalog=<database>;Integrated Security=True\<close>; for
  every other authentication type, once the credential lookup has answered, it returns
  exactly \<open>Data Source=<host>[,<port>];Initial Catalog=<database>;Integrated
  Security=False;User Id=<user>;Password=<password>\<close>. The port segment is there if and
  only if the port option is truthy (set, and neither the empty string nor 0). Both
  strings are spelled out from the host, the port, the database, the user and the
  password alone. The integrated string contains the text \<open>User Id=\<close> exactly when the
  host, the port or the database name contains it: the fixed parts never contribute it.
\<close>

theorem getConnectionString_shapes:
  assumes "ImportDataModel.server m = Some c"
  shows "(authenticationType (options c) = ''Integrated'' \<longrightarrow>
            getConnectionString h m =
              (Fulfilled (''Data Source='' @ ConnectionOptions.server (options c)
                 @ (if truthy (port (options c)) then '','' @ to_string (port (options c)) else [])
                 @ '';Initial Catalog='' @ database m @ '';Integrated Security=True''), [])
            \<and> (\<forall>cs. fst (getConnectionString h m) = Fulfilled cs \<longrightarrow>
                  (sublist ''User Id='' cs \<longleftrightarrow>
                     sublist ''User Id='' (ConnectionOptions.server (options c))
                     \<or> (truthy (port (options c)) \<and> sublist ''User Id='' (to_string (port (options c))))
                     \<or> sublist ''User Id='' (database m))))
       \<and> (authenticationType (options c) \<noteq> ''Integrated'' \<longrightarrow>
            (\<forall>credentials. getCredentials h (connectionId c) = Fulfilled credentials \<longrightarrow>
               fst (getConnectionString h m) =
                 Fulfilled (''Data Source='' @ ConnectionOptions.server (options c)
                   @ (if truthy (port (options c)) then '','' @ to_string (port (options c)) else [])
                   @ '';Initial Catalog='' @ database m @ '';Integrated Security=False;User Id=''
                   @ to_string (user (options c)) @ '';Password='' @ password credentials)))"
proof (intro conjI impI allI)
  assume "authenticationType (options c) = ''Integrated''"
  with assms show i: "getConnectionString h m =
      (Fulfilled (''Data Source='' @ ConnectionOptions.server (options c)
         @ (if truthy (port (options c)) then '','' @ to_string (port (options c)) else [])
         @ '';Initial Catalog='' @ database m @ '';Integrated Security=True''), [])"
    by (simp add: getConnectionString_def portSegment_def Let_def)
  fix cs
  assume "fst (getConnectionString h m) = Fulfilled cs"
  with i have cs: "cs = (''Data Source='' @ ConnectionOptions.server (options c)
         @ (if truthy (port (options c)) then '','' @ to_string (port (options c)) else []))
         @ CHR '';'' # (''Initial Catalog='' @ database m) @ CHR '';'' # ''Integrated Security=True''"
    by simp
  have "sublist ''User Id='' cs \<longleftrightarrow>
      sublist ''User Id='' (ConnectionOptions.server (options c)
         @ (if truthy (port (options c)) then '','' @ to_string (port (options c)) else []))
      \<or> sublist ''User Id='' (database m)"
    unfolding cs
    by (simp only: sublist_separator [where c = "CHR '';''" and u = "''User Id=''", simplified]
        userid_after_data_source userid_after_initial_catalog)
       (simp add: sublist_code)
  also have "sublist ''User Id='' (ConnectionOptions.server (options c)
         @ (if truthy (port (options c)) then '','' @ to_string (port (options c)) else []))
     \<longleftrightarrow> sublist ''User Id='' (ConnectionOptions.server (options c))
       \<or> (truthy (port (options c)) \<and> sublist ''User Id='' (to_string (port (options c))))"
    using sublist_separator [where c = "CHR '',''" and u = "''User Id=''", simplified]
    by simp
  finally show "sublist ''User Id='' cs \<longleftrightarrow>
                     sublist ''User Id='' (ConnectionOptions.server (options c))
                     \<or> (truthy (port (options c)) \<and> sublist ''User Id='' (to_string (port (options c))))
                     \<or> sublist ''User Id='' (database m)"
    by blast
next
  fix credentials
  assume "authenticationType (options c) \<noteq> ''Integrated''"
    and "getCredentials h (connectionId c) = Fulfilled credentials"
  with assms show "fst (getConnectionString h m) =
                 Fulfilled (''Data Source='' @ ConnectionOptions.server (options c)
                   @ (if truthy (port (options c)) then '','' @ to_string (port (options c)) else [])
                   @ '';Initial Catalog='' @ database m @ '';Integrated Security=False;User Id=''
                   @ to_string (user (options c)) @ '';Password='' @ password credentials)"
    by (simp add: getConnectionString_def portSegment_def Let_def)
qed

text \<open>The scenario connection with integrated authentication, and a SQL login on port
  1433.\<close>

theorem getConnectionString_shapes_witness:
  "getConnectionString exampleHost exampleModel =
     (Fulfilled ''Data Source=localhost;Initial Catalog=db1;Integrated Security=True'', [])
   \<and> \<not> sublist ''User Id='' ''Data Source=localhost;Initial Catalog=db1;Integrated Security=True''
   \<and> fst (getConnectionString exampleHost (exampleModel\<lparr>ImportDataModel.server := Some sqlLoginConnection\<rparr>)) =
       Fulfilled ''Data Source=localhost,1433;Initial Catalog=db1;Integrated Security=False;User Id=sa;Password=pw''"
proof -
  have a: "ImportDataModel.server exampleModel = Some exampleConnection"
    by (simp add: exampleModel_def)
  have b: "ImportDataModel.server (exampleModel\<lparr>ImportDataModel.server := Some sqlLoginConnection\<rparr>)
      = Some sqlLoginConnection"
    by simp
  have integrated: "authenticationType (options exampleConnection) = ''Integrated''"
    by (simp add: exampleConnection_def)
  have login: "authenticationType (options sqlLoginConnection) \<noteq> ''Integrated''"
    by (simp add: sqlLoginConnection_def)
  have credentials: "getCredentials exampleHost (connectionId sqlLoginConnection) = Fulfilled \<lparr>password = ''pw''\<rparr>"
    by (simp add: exampleHost_def)
  note shape1 = getConnectionString_shapes [OF a, of exampleHost]
  note shape2 = getConnectionString_shapes [OF b, of exampleHost]
  from shape1 integrated have
    "getConnectionString exampleHost exampleModel =
       (Fulfilled (''Data Source='' @ ConnectionOptions.server (options exampleConnection)
          @ (if truthy (port (options exampleConnection)) then '','' @ to_string (port (options exampleConnection)) else [])
          @ '';Initial Catalog='' @ database exampleModel @ '';Integrated Security=True''), [])"
    by blast
  also have "ConnectionOptions.server (options exampleConnection) = ''localhost''"
    by (simp add: exampleConnection_def)
  also have "truthy (port (options exampleConnection)) = False"
    by (simp add: exampleConnection_def truthy_def)
  also have "database exampleModel = ''db1''"
    by (simp add: exampleModel_def)
  finally have first: "getConnectionString exampleHost exampleModel =
     (Fulfilled ''Data Source=localhost;Initial Catalog=db1;Integrated Security=True'', [])"
    by simp
  from shape1 integrated have
    "\<forall>cs. fst (getConnectionString exampleHost exampleModel) = Fulfilled cs \<longrightarrow>
        (sublist ''User Id='' cs \<longleftrightarrow>
           sublist ''User Id='' (ConnectionOptions.server (options exampleConnection))
           \<or> (truthy (port (options exampleConnection)) \<and> sublist ''User Id='' (to_string (port (options exampleConnection))))
           \<or> sublist ''User Id='' (database exampleModel))"
    by blast
  with first have "sublist ''User Id='' ''Data Source=localhost;Initial Catalog=db1;Integrated Security=True'' \<longleftrightarrow>
           sublist ''User Id='' (ConnectionOptions.server (options exampleConnection))
           \<or> (truthy (port (options exampleConnection)) \<and> sublist ''User Id='' (to_string (port (options exampleConnection))))
           \<or> sublist ''User Id='' (database exampleModel)"
    by simp
  also have "\<dots> = False"
    by (simp add: exampleConnection_def exampleModel_def truthy_def sublist_code)
  finally have second:
    "\<not> sublist ''User Id='' ''Data Source=localhost;Initial Catalog=db1;Integrated Security=True''"
    by simp
  from shape2 login credentials have
    "fst (getConnectionString exampleHost (exampleModel\<lparr>ImportDataModel.server := Some sqlLoginConnection\<rparr>)) =
       Fulfilled (''Data Source='' @ ConnectionOptions.server (options sqlLoginConnection)
         @ (if truthy (port (options sqlLoginConnection)) then '','' @ to_string (port (options sqlLoginConnection)) else [])
         @ '';Initial Catalog='' @ database (exampleModel\<lparr>ImportDataModel.server := Some sqlLoginConnection\<rparr>)
         @ '';Integrated Security=False;User Id=''
         @ to_string (user (options sqlLoginConnection)) @ '';Password='' @ password \<lparr>password = ''pw''\<rparr>)"
    by blast
  also have "ConnectionOptions.server (options sqlLoginConnection) = ''localhost''"
    by (simp add: sqlLoginConnection_def)
  also have "port (options sqlLoginConnection) = Num 1433"
    by (simp add: sqlLoginConnection_def)
  also have "user (options sqlLoginConnection) = Str ''sa''"
    by (simp add: sqlLoginConnection_def)
  also have "database (exampleModel\<lparr>ImportDataModel.server := Some sqlLoginConnection\<rparr>) = ''db1''"
    by (simp add: exampleModel_def)
  finally have third:
    "fst (getConnectionString exampleHost (exampleModel\<lparr>ImportDataModel.server := Some sqlLoginConnection\<rparr>)) =
       Fulfilled ''Data Source=localhost,1433;Initial Catalog=db1;Integrated Security=False;User Id=sa;Password=pw''"
    by (simp add: truthy_def to_string_def dec_1433)
  from first second third show ?thesis by blast
qed

text \<open>
  As first stated the claim also says that the integrated string never contains
  \<open>User Id=\<close>. A database named \<open>User Id=\<close> puts the text there. And with any
  other authentication type no string is returned when the credential lookup fails.
\<close>

theorem getConnectionString_userid_counterexample:
  "authenticationType (options exampleConnection) = ''Integrated''
   \<and> getConnectionString exampleHost (exampleModel\<lparr>database := ''User Id=''\<rparr>) =
       (Fulfilled ''Data Source=localhost;Initial Catalog=User Id=;Integrated Security=True'', [])
   \<and> sublist ''User Id='' ''Data Source=localhost;Initial Catalog=User Id=;Integrated Security=True''
   \<and> authenticationType (options sqlLoginConnection) = ''SqlLogin''
   \<and> fst (getConnectionString
         (exampleHost\<lparr>getCredentials := (\<lambda>c. Rejected (JsError ''Error'' ''no credentials''))\<rparr>)
         (exampleModel\<lparr>ImportDataModel.server := Some sqlLoginConnection\<rparr>)) =
       Rejected (JsError ''Error'' ''no credentials'')"
  by code_simp

section \<open>The import-commit operation\<close>

subsection \<open>What the steps of handleImport ask of the host\<close>

text \<open>The row count is never read: whatever the query answers, \<open>getCountRowsInserted\<close>
  resolves to \<open>-1\<close>.\<close>

lemma countFromResults_undefined: "countFromResults None = -1"
  by (simp add: countFromResults_def)

lemma getCountRowsInserted_unknown:
  "ImportDataModel.server m = Some srv \<Longrightarrow> fst (getCountRowsInserted h m) = Fulfilled (-1)"
  by (simp add: getCountRowsInserted_def countFromResults_undefined Let_def split: option.split)

lemma getCountRowsInserted_calls:
  "\<forall>c \<in> set (snd (getCountRowsInserted h m)).
     (\<forall>p. c \<noteq> SendChangeColumnSettingsRequest p) \<and> (\<forall>p. c \<noteq> SendInsertDataRequest p)"
  by (auto simp add: getCountRowsInserted_def Let_def split: option.split)

lemma getConnectionString_calls:
  "\<forall>c \<in> set (snd (getConnectionString h m)).
     (\<forall>p. c \<noteq> SendChangeColumnSettingsRequest p) \<and> (\<forall>p. c \<noteq> SendInsertDataRequest p)"
  by (auto simp add: getConnectionString_def Let_def split: option.split settled.split)

lemma getConnectionString_server:
  "getConnectionString h m = (Fulfilled cs, calls) \<Longrightarrow> \<exists>srv. ImportDataModel.server m = Some srv"
  by (cases "ImportDataModel.server m") (auto simp: getConnectionString_def)

lemma sendInsert_cases:
  "sendInsert h m =
     (case getConnectionString h m of
        (Rejected e, calls) \<Rightarrow> (None, Some e, calls)
      | (Fulfilled cs, calls) \<Rightarrow>
          (case sendInsertDataRequest h \<lparr>connectionString = cs, batchSize = 500\<rparr> of
             Rejected e \<Rightarrow> (None, Some e,
                             calls @ [SendInsertDataRequest \<lparr>connectionString = cs, batchSize = 500\<rparr>])
           | Fulfilled r \<Rightarrow> (Some r, None,
                             calls @ [SendInsertDataRequest \<lparr>connectionString = cs, batchSize = 500\<rparr>])))"
  by (simp add: sendInsert_def Let_def split: prod.split settled.split)

lemma sendInsert_server:
  "sendInsert h m = (Some r, err, calls) \<Longrightarrow> \<exists>srv. ImportDataModel.server m = Some srv"
  by (cases "getConnectionString h m")
     (auto simp: sendInsert_cases getConnectionString_server split: settled.splits)

lemma sendInsert_nothing_caught:
  "sendInsert h m = (Some r, caught, calls) \<Longrightarrow> caught = None"
  by (cases "getConnectionString h m")
     (auto simp: sendInsert_cases split: settled.splits)

lemma sendInsert_calls:
  "(\<forall>c \<in> set (snd (snd (sendInsert h m))). \<forall>p. c \<noteq> SendChangeColumnSettingsRequest p)
   \<and> length (filter (\<lambda>c. \<exists>p. c = SendInsertDataRequest p) (snd (snd (sendInsert h m)))) \<le> 1"
proof (cases "getConnectionString h m")
  case (Pair r calls)
  from getConnectionString_calls [of h m] Pair
  have calls: "\<forall>c \<in> set calls. (\<forall>p. c \<noteq> SendChangeColumnSettingsRequest p) \<and> (\<forall>p. c \<noteq> SendInsertDataRequest p)"
    by simp
  then have none: "filter (\<lambda>c. \<exists>p. c = SendInsertDataRequest p) calls = []"
    by (auto simp: filter_empty_conv)
  from Pair calls none show ?thesis
    by (auto simp: sendInsert_cases split: settled.split)
qed

lemma changeColumnRequests_nth:
  "changeColumnRequests cols =
     map (\<lambda>i. SendChangeColumnSettingsRequest
        \<lparr>index = i, newName = columnName (cols ! i), newDataType = dataType (cols ! i),
         newNullable = nullable (cols ! i), newInPrimaryKey = primaryKey (cols ! i)\<rparr>) [0..<length cols]"
  by (rule nth_equalityI) (simp_all add: changeColumnRequests_def columnChangeParams_def nth_enumerate_eq)

lemma length_changeColumnRequests: "length (changeColumnRequests cols) = length cols"
  by (simp add: changeColumnRequests_def)

lemma handleImport_calls:
  "\<exists>rest. snd (snd (handleImport h s)) = changeColumnRequests (proseColumns (SummaryPage.model s)) @ rest
     \<and> (\<forall>c \<in> set rest. \<forall>p. c \<noteq> SendChangeColumnSettingsRequest p)
     \<and> length (filter (\<lambda>c. \<exists>p. c = SendInsertDataRequest p) rest) \<le> 1"
proof -
  obtain r err calls where si: "sendInsert h (SummaryPage.model s) = (r, err, calls)"
    by (cases "sendInsert h (SummaryPage.model s)") auto
  with sendInsert_calls [of h "SummaryPage.model s"]
  have calls: "\<forall>c \<in> set calls. \<forall>p. c \<noteq> SendChangeColumnSettingsRequest p"
    and inserts: "length (filter (\<lambda>c. \<exists>p. c = SendInsertDataRequest p) calls) \<le> 1"
    by simp_all
  obtain n calls' where cnt: "getCountRowsInserted h (SummaryPage.model s) = (n, calls')"
    by (cases "getCountRowsInserted h (SummaryPage.model s)") auto
  with getCountRowsInserted_calls [of h "SummaryPage.model s"]
  have calls': "\<forall>c \<in> set calls'. (\<forall>p. c \<noteq> SendChangeColumnSettingsRequest p) \<and> (\<forall>p. c \<noteq> SendInsertDataRequest p)"
    by simp
  then have none: "filter (\<lambda>c. \<exists>p. c = SendInsertDataRequest p) calls' = []"
    by (auto simp: filter_empty_conv)
  from si cnt calls inserts calls' none show ?thesis
    by (auto simp: handleImport_def updateStatus_def Let_def split: option.split settled.split sum.split)
qed

text \<open>The scenario import, run to its end.\<close>

lemma getConnectionString_example:
  "getConnectionString h exampleModel =
     (Fulfilled ''Data Source=localhost;Initial Catalog=db1;Integrated Security=True'', [])"
  by (simp add: getConnectionString_def exampleModel_def exampleConnection_def portSegment_def
      truthy_def Let_def)

lemma handleImport_example:
  "handleImport exampleHost exampleSummaryPage =
     (Fulfilled True,
      exampleSummaryPage\<lparr>statusText := checkMark @ '' Awesome! You have successfully inserted the data into a table.''\<rparr>,
      [SendChangeColumnSettingsRequest
         \<lparr>index = 0, newName = ''a'', newDataType = ''int'', newNullable = False, newInPrimaryKey = False\<rparr>,
       SendInsertDataRequest
         \<lparr>connectionString = ''Data Source=localhost;Initial Catalog=db1;Integrated Security=True'',
          batchSize = 500\<rparr>,
       RunQueryAndReturn ''MSSQL'' ''c1'' ''USE db1; SELECT COUNT(*) FROM orders2'',
       UpdateProperties StatusText])"
  by code_simp

subsection \<open>One column request per column, all before the insert request\<close>

text \<open>
  Claim C2. For a model with N entries in \<open>proseColumns\<close>, the first N calls of one run
  of \<open>handleImport\<close> are the column-change requests, the i-th carrying the index i and
  the name, data type, nullability and primary-key flag of the i-th column. No further
  column-change request follows them, and the calls after them hold at most one
  insert-data request: every column request is sent before the insert request is.
\<close>

theorem handleImport_dispatch:
  "take (length (proseColumns (SummaryPage.model s))) (snd (snd (handleImport h s))) =
     map (\<lambda>i. SendChangeColumnSettingsRequest
        \<lparr>index = i,
         newName = columnName (proseColumns (SummaryPage.model s) ! i),
         newDataType = dataType (proseColumns (SummaryPage.model s) ! i),
         newNullable = nullable (proseColumns (SummaryPage.model s) ! i),
         newInPrimaryKey = primaryKey (proseColumns (SummaryPage.model s) ! i)\<rparr>)
       [0..<length (proseColumns (SummaryPage.model s))]
   \<and> (\<forall>c \<in> set (drop (length (proseColumns (SummaryPage.model s))) (snd (snd (handleImport h s)))).
         \<forall>p. c \<noteq> SendChangeColumnSettingsRequest p)
   \<and> length (filter (\<lambda>c. \<exists>p. c = SendInsertDataRequest p)
         (drop (length (proseColumns (SummaryPage.model s))) (snd (snd (handleImport h s))))) \<le> 1"
proof -
  obtain rest where rest: "snd (snd (handleImport h s)) = changeColumnRequests (proseColumns (SummaryPage.model s)) @ rest"
     "\<forall>c \<in> set rest. \<forall>p. c \<noteq> SendChangeColumnSettingsRequest p"
     "length (filter (\<lambda>c. \<exists>p. c = SendInsertDataRequest p) rest) \<le> 1"
    using handleImport_calls by blast
  have "take (length (proseColumns (SummaryPage.model s))) (snd (snd (handleImport h s)))
      = changeColumnRequests (proseColumns (SummaryPage.model s))"
    by (simp add: rest(1) length_changeColumnRequests)
  moreover have "drop (length (proseColumns (SummaryPage.model s))) (snd (snd (handleImport h s))) = rest"
    by (simp add: rest(1) length_changeColumnRequests)
  ultimately show ?thesis
    using rest(2,3) changeColumnRequests_nth [of "proseColumns (SummaryPage.model s)"] by simp
qed

text \<open>The scenario import of one column: the column request comes first, the insert
  request, the count query and the status update follow.\<close>

theorem handleImport_dispatch_witness:
  "take 1 (snd (snd (handleImport exampleHost exampleSummaryPage))) =
     [SendChangeColumnSettingsRequest
        \<lparr>index = 0, newName = ''a'', newDataType = ''int'', newNullable = False, newInPrimaryKey = False\<rparr>]
   \<and> drop 1 (snd (snd (handleImport exampleHost exampleSummaryPage))) =
     [SendInsertDataRequest
        \<lparr>connectionString = ''Data Source=localhost;Initial Catalog=db1;Integrated Security=True'',
         batchSize = 500\<rparr>,
      RunQueryAndReturn ''MSSQL'' ''c1'' ''USE db1; SELECT COUNT(*) FROM orders2'',
      UpdateProperties StatusText]"
proof -
  have cols: "proseColumns (SummaryPage.model exampleSummaryPage) =
      [\<lparr>columnName = ''a'', dataType = ''int'', nullable = False, primaryKey = False\<rparr>]"
    by (simp add: exampleSummaryPage_def exampleModel_def)
  from handleImport_dispatch [of exampleSummaryPage exampleHost]
  have "take 1 (snd (snd (handleImport exampleHost exampleSummaryPage))) =
     [SendChangeColumnSettingsRequest
        \<lparr>index = 0, newName = ''a'', newDataType = ''int'', newNullable = False, newInPrimaryKey = False\<rparr>]"
    unfolding cols by simp
  moreover have "drop 1 (snd (snd (handleImport exampleHost exampleSummaryPage))) =
     [SendInsertDataRequest
        \<lparr>connectionString = ''Data Source=localhost;Initial Catalog=db1;Integrated Security=True'',
         batchSize = 500\<rparr>,
      RunQueryAndReturn ''MSSQL'' ''c1'' ''USE db1; SELECT COUNT(*) FROM orders2'',
      UpdateProperties StatusText]"
    by (simp add: handleImport_example)
  ultimately show ?thesis by blast
qed

subsection \<open>A failed insert is reported and can be retried\<close>






subsection \<open>The number of inserted rows\<close>

lemma Number_42: "Number ''42'' = Some 42"
  by (simp add: Number_def isDigit_def)

text \<open>
  Claim C5. It asks that a successful insert whose count query resolves to a number R,
  at least 0, be reported with a message containing R. In the scenario of the
  specification the query resolves to 42, and awaiting it would read 42; the page reads
  the variable before the answer is assigned, gets \<open>-1\<close>, and reports the insert
  without a count: the status text does not contain 42.
\<close>

theorem handleImport_count_lost:
  "fst (getCountRowsInserted_awaited exampleHost exampleModel) = Fulfilled 42
   \<and> fst (getCountRowsInserted exampleHost exampleModel) = Fulfilled (-1)
   \<and> statusText (fst (snd (handleImport exampleHost exampleSummaryPage))) =
       checkMark @ '' Awesome! You have successfully inserted the data into a table.''
   \<and> \<not> sublist ''42'' (statusText (fst (snd (handleImport exampleHost exampleSummaryPage))))"
proof -
  have "fst (getCountRowsInserted_awaited exampleHost exampleModel) = Fulfilled 42"
    by (simp add: getCountRowsInserted_awaited_def exampleHost_def exampleModel_def
        exampleConnection_def singleCell_def countFromResults_def Number_42 Let_def)
  moreover have "fst (getCountRowsInserted exampleHost exampleModel) = Fulfilled (-1)"
    by (rule getCountRowsInserted_unknown) (simp add: exampleModel_def)
  moreover have "\<not> sublist ''42'' (checkMark @ '' Awesome! You have successfully inserted the data into a table.'')"
    by (simp add: checkMark_def sublist_code)
  ultimately show ?thesis
    by (simp add: handleImport_example)
qed

text \<open>A query that fails, or answers with no cell, a null cell or a cell that is not a
  number, leaves the count unknown under the sequential contract as well.\<close>

lemma getCountRowsInserted_awaited_unknown:
  assumes "ImportDataModel.server m = Some srv"
    and "getProvider h (providerName srv) = Some runQueryAndReturn"
    and "case runQueryAndReturn (connectionId srv)
                (''USE '' @ database m @ ''; SELECT COUNT(*) FROM '' @ ImportDataModel.table m) of
           Rejected e \<Rightarrow> True
         | Fulfilled results \<Rightarrow>
             (case rows results of
                (cell # _) # _ \<Rightarrow> isNull cell \<or> Number (displayValue cell) = None
              | _ \<Rightarrow> True)"
  shows "fst (getCountRowsInserted_awaited h m) = Fulfilled (-1)"
  using assms
  by (auto simp: getCountRowsInserted_awaited_def countFromResults_def Let_def
      split: settled.splits list.splits)

text \<open>
  Claim C6. When the insert has succeeded and the count query fails, or answers with no
  cell, a null cell or a cell that is not a number, \<open>handleImport\<close> resolves with true
  and sets the status to the success message that names no count; nothing is thrown.
\<close>

theorem handleImport_count_unknown:
  assumes "sendInsert h (SummaryPage.model s) = (Some r, err, calls)" and "success (result r)"
    and "ImportDataModel.server (SummaryPage.model s) = Some srv"
    and "getProvider h (providerName srv) = Some runQueryAndReturn"
    and "case runQueryAndReturn (connectionId srv)
                (''USE '' @ database (SummaryPage.model s) @ ''; SELECT COUNT(*) FROM ''
                   @ ImportDataModel.table (SummaryPage.model s)) of
           Rejected e \<Rightarrow> True
         | Fulfilled results \<Rightarrow>
             (case rows results of
                (cell # _) # _ \<Rightarrow> isNull cell \<or> Number (displayValue cell) = None
              | _ \<Rightarrow> True)"
  shows "handleImport h s =
           (Fulfilled True,
            s\<lparr>statusText := checkMark @ '' Awesome! You have successfully inserted the data into a table.''\<rparr>,
            changeColumnRequests (proseColumns (SummaryPage.model s)) @ calls
              @ [RunQueryAndReturn (providerName srv) (connectionId srv)
                   (''USE '' @ database (SummaryPage.model s) @ ''; SELECT COUNT(*) FROM ''
                      @ ImportDataModel.table (SummaryPage.model s)),
                 UpdateProperties StatusText])"
  using assms(1-4) sendInsert_nothing_caught [OF assms(1)]
  by (simp add: handleImport_def caughtText_def getCountRowsInserted_def countFromResults_undefined
      updateStatus_def Let_def)

text \<open>The scenario import when the count query fails.\<close>

theorem handleImport_count_unknown_witness:
  "handleImport brokenQueryHost exampleSummaryPage =
     (Fulfilled True,
      exampleSummaryPage\<lparr>statusText := checkMark @ '' Awesome! You have successfully inserted the data into a table.''\<rparr>,
      [SendChangeColumnSettingsRequest
         \<lparr>index = 0, newName = ''a'', newDataType = ''int'', newNullable = False, newInPrimaryKey = False\<rparr>,
       SendInsertDataRequest
         \<lparr>connectionString = ''Data Source=localhost;Initial Catalog=db1;Integrated Security=True'',
          batchSize = 500\<rparr>,
       RunQueryAndReturn ''MSSQL'' ''c1'' ''USE db1; SELECT COUNT(*) FROM orders2'',
       UpdateProperties StatusText])"
proof -
  have insert: "sendInsert brokenQueryHost (SummaryPage.model exampleSummaryPage) =
      (Some \<lparr>result = \<lparr>success = True, errorMessage = []\<rparr>\<rparr>, None,
       [SendInsertDataRequest
         \<lparr>connectionString = ''Data Source=localhost;Initial Catalog=db1;Integrated Security=True'',
          batchSize = 500\<rparr>])"
    by (simp add: sendInsert_cases exampleSummaryPage_def getConnectionString_example
        brokenQueryHost_def exampleHost_def)
  have ok: "success (result \<lparr>result = \<lparr>success = True, errorMessage = []\<rparr>\<rparr>)"
    by simp
  have srv: "ImportDataModel.server (SummaryPage.model exampleSummaryPage) = Some exampleConnection"
    by (simp add: exampleSummaryPage_def exampleModel_def)
  have provider: "getProvider brokenQueryHost (providerName exampleConnection) =
      Some (\<lambda>c q. Rejected (JsError ''Error'' ''connection lost''))"
    by (simp add: brokenQueryHost_def)
  have fails: "case (\<lambda>c q. Rejected (JsError ''Error'' ''connection lost'')) (connectionId exampleConnection)
                (''USE '' @ database (SummaryPage.model exampleSummaryPage) @ ''; SELECT COUNT(*) FROM ''
                   @ ImportDataModel.table (SummaryPage.model exampleSummaryPage)) of
           Rejected e \<Rightarrow> True
         | Fulfilled results \<Rightarrow>
             (case rows results of
                (cell # _) # _ \<Rightarrow> isNull cell \<or> Number (displayValue cell) = None
              | _ \<Rightarrow> True)"
    by simp
  have cols: "changeColumnRequests (proseColumns (SummaryPage.model exampleSummaryPage)) =
      [SendChangeColumnSettingsRequest
         \<lparr>index = 0, newName = ''a'', newDataType = ''int'', newNullable = False, newInPrimaryKey = False\<rparr>]"
    by (simp add: changeColumnRequests_def columnChangeParams_def exampleSummaryPage_def exampleModel_def)
  have names: "providerName exampleConnection = ''MSSQL''" "connectionId exampleConnection = ''c1''"
    "database (SummaryPage.model exampleSummaryPage) = ''db1''"
    "ImportDataModel.table (SummaryPage.model exampleSummaryPage) = ''orders2''"
    by (simp_all add: exampleConnection_def exampleSummaryPage_def exampleModel_def)
  from handleImport_count_unknown [OF insert ok srv provider fails]
  show ?thesis
    unfolding cols names by simp
qed

section \<open>Entering the configuration page\<close>

text \<open>Handed to \<^verbatim>\<open>then\<close> as a bare function, \<open>populateDatabaseDropdown\<close> fails at its
  first line, before it asks anything. The settled chain is the three steps, one behind
  the other, and as the code stands it always ends rejected.\<close>

lemma populateDatabaseDropdown_unbound:
  "populateDatabaseDropdown ThisUndefined h s = (Rejected (TypeError ''databaseDropdown''), s, [])"
  by (simp add: populateDatabaseDropdown_def)

lemma onPageEnter_settled_chain:
  "onPageEnter_settled h s =
     then_task (then_task populateServerDropdown (\<lambda>_. populateDatabaseDropdown ThisUndefined))
       (\<lambda>_. populateSchemaDropdown ThisUndefined) h s"
  by (simp add: onPageEnter_settled_def onPageEnter_def populationChain_def then_task_def
      populateServerDropdown_def split: prod.split settled.split)

lemma onPageEnter_chain_rejected: "\<exists>e. fst (onPageEnter_settled h s) = Rejected e"
  by (simp add: onPageEnter_settled_chain then_task_def populateDatabaseDropdown_unbound
      split: prod.split settled.split)

text \<open>
  Claim C7. When the host returns an empty list of connections, the page that
  \<open>onPageEnter\<close> and its pending chain leave is the page they found, so
  \<open>model.server\<close> stays unset, and the request for the connections is the only call
  made: no further population call reaches the host or a widget. When the list is not
  empty, its first element is \<open>model.server\<close>.
\<close>

theorem onPageEnter_connections:
  "(getActiveConnections h = Fulfilled (Some []) \<longrightarrow>
      fst (snd (onPageEnter_settled h s)) = s
      \<and> snd (snd (onPageEnter_settled h s)) = [GetActiveConnections])
   \<and> (\<forall>c cs. getActiveConnections h = Fulfilled (Some (c # cs)) \<longrightarrow>
         ImportDataModel.server (model (fst (snd (onPageEnter_settled h s)))) = Some c)"
  by (simp add: onPageEnter_settled_chain then_task_def populateServerDropdown_def
      populateServerDropdown_resume_def populateDatabaseDropdown_unbound)

text \<open>A fresh page, entered once with no connection and once with the connection
  \<open>c1\<close>.\<close>

theorem onPageEnter_connections_witness:
  "ImportDataModel.server (model freshPage) = None
   \<and> fst (snd (onPageEnter_settled noConnectionHost freshPage)) = freshPage
   \<and> snd (snd (onPageEnter_settled noConnectionHost freshPage)) = [GetActiveConnections]
   \<and> ImportDataModel.server (model (fst (snd (onPageEnter_settled exampleHost freshPage)))) = Some exampleConnection"
proof -
  have none: "getActiveConnections noConnectionHost = Fulfilled (Some [])"
    by (simp add: noConnectionHost_def)
  have one: "getActiveConnections exampleHost = Fulfilled (Some (exampleConnection # []))"
    by (simp add: exampleHost_def)
  have unset: "ImportDataModel.server (model freshPage) = None"
    by (simp add: freshPage_def)
  from onPageEnter_connections [of noConnectionHost freshPage] none
  have a: "fst (snd (onPageEnter_settled noConnectionHost freshPage)) = freshPage
      \<and> snd (snd (onPageEnter_settled noConnectionHost freshPage)) = [GetActiveConnections]"
    by blast
  from onPageEnter_connections [of exampleHost freshPage] one
  have b: "ImportDataModel.server (model (fst (snd (onPageEnter_settled exampleHost freshPage)))) = Some exampleConnection"
    by blast
  from unset a b show ?thesis by blast
qed

text \<open>The handler of the server dropdown chains the same two steps through an arrow
  function, which keeps the page as receiver: there both steps run and the lists are
  filled.\<close>

lemma serverDropdown_onValueChanged_example:
  "fst (serverDropdown_onValueChanged exampleHost
          (freshPage\<lparr>serverDropdown :=
             \<lparr>values' = [],
              value' = Some \<lparr>displayName = ''localhost, db1 (default)'', name = ''c1'',
                             connection = exampleConnection\<rparr>\<rparr>\<rparr>)) = Fulfilled True
   \<and> values' (databaseDropdown (fst (snd (serverDropdown_onValueChanged exampleHost
          (freshPage\<lparr>serverDropdown :=
             \<lparr>values' = [],
              value' = Some \<lparr>displayName = ''localhost, db1 (default)'', name = ''c1'',
                             connection = exampleConnection\<rparr>\<rparr>\<rparr>))))) =
       [\<lparr>displayName = ''db1'', name = ''db1''\<rparr>]
   \<and> values' (schemaDropdown (fst (snd (serverDropdown_onValueChanged exampleHost
          (freshPage\<lparr>serverDropdown :=
             \<lparr>values' = [],
              value' = Some \<lparr>displayName = ''localhost, db1 (default)'', name = ''c1'',
                             connection = exampleConnection\<rparr>\<rparr>\<rparr>))))) =
       [\<lparr>displayName = ''dbo'', name = ''dbo''\<rparr>]"
  by code_simp

text \<open>
  Claim C10. It asks that \<open>onPageEnter\<close> resolve with true without awaiting the
  population chain, and that the three population steps be sequenced by the chain and
  all complete after \<open>onPageEnter\<close> has returned. The first holds. The chain,
  however, hands the database and the schema step to \<^verbatim>\<open>then\<close> as bare functions: for
  every host and every page, once the server step is fulfilled the database step throws
  at its first line, the chain ends rejected with that TypeError on the page the server
  step left, and no call of the database or the schema step is ever made.
\<close>

theorem onPageEnter_chain_stops:
  "fst (onPageEnter s) = Fulfilled True
   \<and> onPageEnter_settled h s =
       (case populateServerDropdown h s of
          (Rejected e, s1, calls1) \<Rightarrow> (Rejected e, s1, calls1)
        | (Fulfilled u, s1, calls1) \<Rightarrow> (Rejected (TypeError ''databaseDropdown''), s1, calls1))"
  by (simp add: onPageEnter_settled_chain then_task_def populateDatabaseDropdown_unbound
      onPageEnter_def split: prod.split settled.split)

text \<open>A fresh page entered with the connection \<open>c1\<close>: \<open>onPageEnter\<close> resolves
  with true, the chain ends rejected after the server step, and the database and schema
  lists stay empty.\<close>

theorem onPageEnter_chain_stops_witness:
  "fst (onPageEnter freshPage) = Fulfilled True
   \<and> fst (onPageEnter_settled exampleHost freshPage) = Rejected (TypeError ''databaseDropdown'')
   \<and> snd (snd (onPageEnter_settled exampleHost freshPage)) =
       [GetActiveConnections, UpdateProperties ServerDropdown]
   \<and> values' (databaseDropdown (fst (snd (onPageEnter_settled exampleHost freshPage)))) = []
   \<and> values' (schemaDropdown (fst (snd (onPageEnter_settled exampleHost freshPage)))) = []
   \<and> database (model (fst (snd (onPageEnter_settled exampleHost freshPage)))) = []"
proof -
  note t = onPageEnter_chain_stops [of freshPage exampleHost]
  from t have a: "fst (onPageEnter freshPage) = Fulfilled True" by blast
  have server: "populateServerDropdown exampleHost freshPage =
      (Fulfilled (),
       freshPage\<lparr>server := Some exampleConnection,
         model := (model freshPage)\<lparr>ImportDataModel.server := Some exampleConnection\<rparr>,
         serverDropdown := (serverDropdown freshPage)
           \<lparr>values' := [\<lparr>displayName = connectionDisplayName exampleConnection,
                          name = connectionId exampleConnection, connection = exampleConnection\<rparr>]\<rparr>\<rparr>,
       [GetActiveConnections, UpdateProperties ServerDropdown])"
    by (simp add: populateServerDropdown_def populateServerDropdown_resume_def exampleHost_def)
  from t have "onPageEnter_settled exampleHost freshPage =
       (case populateServerDropdown exampleHost freshPage of
          (Rejected e, s1, calls1) \<Rightarrow> (Rejected e, s1, calls1)
        | (Fulfilled u, s1, calls1) \<Rightarrow> (Rejected (TypeError ''databaseDropdown''), s1, calls1))"
    by blast
  then have settled: "onPageEnter_settled exampleHost freshPage =
      (Rejected (TypeError ''databaseDropdown''),
       freshPage\<lparr>server := Some exampleConnection,
         model := (model freshPage)\<lparr>ImportDataModel.server := Some exampleConnection\<rparr>,
         serverDropdown := (serverDropdown freshPage)
           \<lparr>values' := [\<lparr>displayName = connectionDisplayName exampleConnection,
                          name = connectionId exampleConnection, connection = exampleConnection\<rparr>]\<rparr>\<rparr>,
       [GetActiveConnections, UpdateProperties ServerDropdown])"
    by (simp add: server)
  from a settled show ?thesis
    by (simp add: freshPage_def)
qed

section \<open>Changing the database\<close>




section \<open>The table name derived from the chosen file\<close>

lemma lastIndexFrom_absent: "x \<notin> set ys \<Longrightarrow> lastIndexFrom x i found ys = found"
  by (induction ys arbitrary: i) auto

lemma lastIndexFrom_append:
  "lastIndexFrom x i found (xs @ ys) =
     lastIndexFrom x (i + int (length xs)) (lastIndexFrom x i found xs) ys"
  by (induction xs arbitrary: i found) (auto simp: algebra_simps)

lemma lastIndexOf_absent: "x \<notin> set xs \<Longrightarrow> lastIndexOf xs x = -1"
  by (simp add: lastIndexOf_def lastIndexFrom_absent)

lemma lastIndexOf_last: "x \<notin> set ys \<Longrightarrow> lastIndexOf (xs @ x # ys) x = int (length xs)"
  by (simp add: lastIndexOf_def lastIndexFrom_append lastIndexFrom_absent)

lemma substring_middle:
  "substring (xs @ ys @ zs) (int (length xs)) (int (length xs) + int (length ys)) = ys"
  by (simp add: substring_def Let_def)

lemma substring_to_end:
  "substring (xs @ ys) (int (length xs)) (int (length xs) + int (length ys)) = ys"
  using substring_middle [of xs ys "[]"] by simp

lemma lastIndexOf_slash_dir:
  assumes "dir = [] \<or> last dir = c" and "c \<notin> set rest"
  shows "lastIndexOf (dir @ rest) c + 1 = int (length dir)"
proof (cases "dir = []")
  case True
  with assms show ?thesis by (simp add: lastIndexOf_absent)
next
  case False
  with assms obtain d where d: "dir = d @ [c]"
    by (metis append_butlast_last_id)
  with assms(2) have "lastIndexOf (dir @ rest) c = int (length d)"
    by (simp add: lastIndexOf_last)
  with d show ?thesis by simp
qed

text \<open>
  For the file chosen in the browse dialog, \<open>model.filePath\<close> and the file box are
  set to the file's filesystem path, and \<open>model.table\<close> and the table name box to the
  same derived name. When the last dot of the URI path comes after its last slash (or
  there is no slash) and not at index 0, the derived name is the text strictly between
  the last slash and the last dot. The guard \<^verbatim>\<open>nameEnd === 0\<close> fires when the only
  dot of the path is at index 0: the derived name then runs from after the last slash to
  the end of the path.
\<close>

lemma fileButton_onDidClick_name:
  assumes "showOpenDialog h = Fulfilled (Some (fileUri # others))"
  shows "filePath (model (fst (snd (fileButton_onDidClick h s)))) = fsPath fileUri
       \<and> text' (fileTextBox (fst (snd (fileButton_onDidClick h s)))) = fsPath fileUri
       \<and> text' (tableNameTextBox (fst (snd (fileButton_onDidClick h s)))) =
           ImportDataModel.table (model (fst (snd (fileButton_onDidClick h s))))
       \<and> (\<forall>dir stem ext.
             path fileUri = dir @ stem @ ''.'' @ ext
             \<and> (dir = [] \<or> last dir = CHR ''/'') \<and> CHR ''/'' \<notin> set stem \<and> CHR ''/'' \<notin> set ext
             \<and> CHR ''.'' \<notin> set ext \<and> dir @ stem \<noteq> []
             \<longrightarrow> ImportDataModel.table (model (fst (snd (fileButton_onDidClick h s)))) = stem)
       \<and> (\<forall>dir rest.
             path fileUri = dir @ rest
             \<and> (dir = [] \<or> last dir = CHR ''/'') \<and> CHR ''/'' \<notin> set rest
             \<and> hd (path fileUri) = CHR ''.'' \<and> CHR ''.'' \<notin> set (tl (path fileUri))
             \<longrightarrow> ImportDataModel.table (model (fst (snd (fileButton_onDidClick h s)))) = rest)"
proof (intro conjI allI impI)
  let ?s' = "fst (snd (fileButton_onDidClick h s))"
  let ?name = "substring (path fileUri) (lastIndexOf (path fileUri) (CHR ''/'') + 1)
      (if lastIndexOf (path fileUri) (CHR ''.'') = 0 then int (length (path fileUri))
       else lastIndexOf (path fileUri) (CHR ''.''))"
  from assms have page: "?s' =
      s\<lparr>fileTextBox := \<lparr>text' = fsPath fileUri\<rparr>,
        tableNameTextBox := \<lparr>text' = ?name\<rparr>,
        model := (model s)\<lparr>ImportDataModel.table := ?name, filePath := fsPath fileUri\<rparr>\<rparr>"
    by (simp add: fileButton_onDidClick_def Let_def)
  show "filePath (model ?s') = fsPath fileUri"
    and "text' (fileTextBox ?s') = fsPath fileUri"
    and "text' (tableNameTextBox ?s') = ImportDataModel.table (model ?s')"
    by (simp_all add: page)
  have name: "ImportDataModel.table (model ?s') = ?name"
    by (simp add: page)
  {
    fix dir stem ext
    assume a: "path fileUri = dir @ stem @ ''.'' @ ext
             \<and> (dir = [] \<or> last dir = CHR ''/'') \<and> CHR ''/'' \<notin> set stem \<and> CHR ''/'' \<notin> set ext
             \<and> CHR ''.'' \<notin> set ext \<and> dir @ stem \<noteq> []"
    then have p: "path fileUri = dir @ stem @ CHR ''.'' # ext" by simp
    from a have "CHR ''/'' \<notin> set (stem @ CHR ''.'' # ext)" by simp
    with a have slash: "lastIndexOf (dir @ stem @ CHR ''.'' # ext) (CHR ''/'') + 1 = int (length dir)"
      using lastIndexOf_slash_dir [of dir "CHR ''/''" "stem @ CHR ''.'' # ext"] by blast
    from a have dot: "lastIndexOf (dir @ stem @ CHR ''.'' # ext) (CHR ''.'') = int (length dir) + int (length stem)"
      using lastIndexOf_last [of "CHR ''.''" ext "dir @ stem"] by simp
    from a have "dir \<noteq> [] \<or> stem \<noteq> []" by simp
    then have "0 < length dir \<or> 0 < length stem" by simp
    then have nonzero: "int (length dir) + int (length stem) \<noteq> 0" by linarith
    have "?name = stem"
      unfolding p slash dot using nonzero substring_middle [of dir stem "CHR ''.'' # ext"]
      by simp
    with name show "ImportDataModel.table (model ?s') = stem" by simp
  }
  {
    fix dir rest
    assume a: "path fileUri = dir @ rest
             \<and> (dir = [] \<or> last dir = CHR ''/'') \<and> CHR ''/'' \<notin> set rest
             \<and> hd (path fileUri) = CHR ''.'' \<and> CHR ''.'' \<notin> set (tl (path fileUri))"
    then have slash: "lastIndexOf (path fileUri) (CHR ''/'') + 1 = int (length dir)"
      using lastIndexOf_slash_dir [of dir "CHR ''/''" rest] by simp
    from a have first: "hd (path fileUri) = CHR ''.''" and others: "CHR ''.'' \<notin> set (tl (path fileUri))"
      by blast+
    from a have len: "int (length (path fileUri)) = int (length dir) + int (length rest)" by simp
    have "?name = rest"
    proof (cases "path fileUri = []")
      case True
      with a show ?thesis by (simp add: substring_def lastIndexOf_def)
    next
      case False
      then have "path fileUri = hd (path fileUri) # tl (path fileUri)" by simp
      with first have "path fileUri = [] @ CHR ''.'' # tl (path fileUri)" by simp
      with others have "lastIndexOf (path fileUri) (CHR ''.'') = 0"
        using lastIndexOf_last [of "CHR ''.''" "tl (path fileUri)" "[]"] by simp
      then show ?thesis
        unfolding slash using a len substring_to_end [of dir rest] by simp
    qed
    with name show "ImportDataModel.table (model ?s') = rest" by simp
  }
qed

text \<open>The file \<open>/home/user/orders.csv\<close> gives the table \<open>orders\<close>; the path
  \<open>.profile\<close> gives \<open>.profile\<close>.\<close>

lemma fileButton_onDidClick_name_example:
  "filePath (model (fst (snd (fileButton_onDidClick exampleHost freshPage)))) = ''/home/user/orders.csv''
   \<and> ImportDataModel.table (model (fst (snd (fileButton_onDidClick exampleHost freshPage)))) = ''orders''
   \<and> ImportDataModel.table (model (fst (snd (fileButton_onDidClick
         (exampleHost\<lparr>showOpenDialog := Fulfilled (Some [\<lparr>fsPath = ''/home/user/.profile'', path = ''.profile''\<rparr>])\<rparr>)
         freshPage)))) = ''.profile''"
proof -
  have dialog: "showOpenDialog exampleHost =
      Fulfilled (Some (\<lparr>fsPath = ''/home/user/orders.csv'', path = ''/home/user/orders.csv''\<rparr> # []))"
    by (simp add: exampleHost_def)
  note csv = fileButton_onDidClick_name [OF dialog, of freshPage]
  from csv have a: "filePath (model (fst (snd (fileButton_onDidClick exampleHost freshPage)))) = ''/home/user/orders.csv''"
    by simp
  have "path \<lparr>fsPath = ''/home/user/orders.csv'', path = ''/home/user/orders.csv''\<rparr>
          = ''/home/user/'' @ ''orders'' @ ''.'' @ ''csv''
        \<and> (''/home/user/'' = [] \<or> last ''/home/user/'' = CHR ''/'') \<and> CHR ''/'' \<notin> set ''orders''
        \<and> CHR ''/'' \<notin> set ''csv'' \<and> CHR ''.'' \<notin> set ''csv'' \<and> ''/home/user/'' @ ''orders'' \<noteq> []"
    by simp
  with csv have b: "ImportDataModel.table (model (fst (snd (fileButton_onDidClick exampleHost freshPage)))) = ''orders''"
    by blast
  have dialog': "showOpenDialog (exampleHost\<lparr>showOpenDialog := Fulfilled (Some [\<lparr>fsPath = ''/home/user/.profile'', path = ''.profile''\<rparr>])\<rparr>) =
      Fulfilled (Some (\<lparr>fsPath = ''/home/user/.profile'', path = ''.profile''\<rparr> # []))"
    by simp
  note hidden = fileButton_onDidClick_name [OF dialog', of freshPage]
  have "path \<lparr>fsPath = ''/home/user/.profile'', path = ''.profile''\<rparr> = [] @ ''.profile''
        \<and> ([] = [] \<or> last [] = CHR ''/'') \<and> CHR ''/'' \<notin> set ''.profile''
        \<and> hd (path \<lparr>fsPath = ''/home/user/.profile'', path = ''.profile''\<rparr>) = CHR ''.''
        \<and> CHR ''.'' \<notin> set (tl (path \<lparr>fsPath = ''/home/user/.profile'', path = ''.profile''\<rparr>))"
    by simp
  with hidden have c: "ImportDataModel.table (model (fst (snd (fileButton_onDidClick
         (exampleHost\<lparr>showOpenDialog := Fulfilled (Some [\<lparr>fsPath = ''/home/user/.profile'', path = ''.profile''\<rparr>])\<rparr>)
         freshPage)))) = ''.profile''"
    by blast
  from a b c show ?thesis by blast
qed

lemma substring_swapped:
  "substring (xs @ ys) (int (length xs)) (-1) = xs"
  by (simp add: substring_def Let_def)

text \<open>
  Claim C9. It asks that the derived name be the text strictly between the last slash
  and the last dot of the URI path, and describes the guard for files without an
  extension. The page's own comment reads: handle files without extensions. For such a
  file the code derives no file name at all. When the path contains no dot,
  \<^verbatim>\<open>lastIndexOf\<close> gives \<open>-1\<close>, the guard \<^verbatim>\<open>nameEnd === 0\<close> does not fire,
  \<^verbatim>\<open>substring\<close> takes \<open>-1\<close> as 0 and swaps its arguments, and for every such path
  \<open>model.table\<close> and the table name box become the directory part of the path, up to
  and including the last slash (the empty text only when the path has no slash).
\<close>

theorem fileButton_onDidClick_no_extension:
  assumes "showOpenDialog h = Fulfilled (Some (fileUri # others))"
    and "path fileUri = dir @ fileName"
    and "dir = [] \<or> last dir = CHR ''/''"
    and "CHR ''/'' \<notin> set fileName"
    and "CHR ''.'' \<notin> set (path fileUri)"
  shows "ImportDataModel.table (model (fst (snd (fileButton_onDidClick h s)))) = dir
       \<and> text' (tableNameTextBox (fst (snd (fileButton_onDidClick h s)))) = dir"
proof -
  from assms(2,3,4) have slash: "lastIndexOf (path fileUri) (CHR ''/'') + 1 = int (length dir)"
    using lastIndexOf_slash_dir [of dir "CHR ''/''" fileName] by simp
  from assms(5) have dot: "lastIndexOf (path fileUri) (CHR ''.'') = -1"
    by (rule lastIndexOf_absent)
  have name: "substring (path fileUri) (lastIndexOf (path fileUri) (CHR ''/'') + 1)
      (if lastIndexOf (path fileUri) (CHR ''.'') = 0 then int (length (path fileUri))
       else lastIndexOf (path fileUri) (CHR ''.'')) = dir"
    unfolding slash dot using substring_swapped [of dir fileName] assms(2) by simp
  from assms(1) name show ?thesis
    by (simp add: fileButton_onDidClick_def Let_def)
qed

text \<open>The file \<open>/home/user/data\<close>: the table name is \<open>/home/user/\<close>, not
  \<open>data\<close>.\<close>

theorem fileButton_onDidClick_no_extension_witness:
  "ImportDataModel.table (model (fst (snd (fileButton_onDidClick noExtensionHost freshPage)))) = ''/home/user/''
   \<and> text' (tableNameTextBox (fst (snd (fileButton_onDidClick noExtensionHost freshPage)))) = ''/home/user/''"
proof -
  have dialog: "showOpenDialog noExtensionHost =
      Fulfilled (Some (\<lparr>fsPath = ''/home/user/data'', path = ''/home/user/data''\<rparr> # []))"
    by (simp add: noExtensionHost_def)
  have parts: "path \<lparr>fsPath = ''/home/user/data'', path = ''/home/user/data''\<rparr> = ''/home/user/'' @ ''data''"
    and dir: "''/home/user/'' = [] \<or> last ''/home/user/'' = CHR ''/''"
    and name: "CHR ''/'' \<notin> set ''data''"
    and nodot: "CHR ''.'' \<notin> set (path \<lparr>fsPath = ''/home/user/data'', path = ''/home/user/data''\<rparr>)"
    by simp_all
  from fileButton_onDidClick_no_extension [OF dialog parts dir name nodot, of freshPage]
  show ?thesis .
qed

text \<open>The arguments are swapped as well when a file without an extension lies in a
  directory whose name has a dot: the name is then the text from that dot to the last
  slash, both included.\<close>

lemma fileButton_onDidClick_dotted_directory:
  "ImportDataModel.table (model (fst (snd (fileButton_onDidClick
         (exampleHost\<lparr>showOpenDialog :=
            Fulfilled (Some [\<lparr>fsPath = ''/home/user.name/data'', path = ''/home/user.name/data''\<rparr>])\<rparr>)
         freshPage)))) = ''.name/''"
  by code_simp

end
